theory Spec2Isabelle
  imports Main "HOL-Library.AList"
begin

section \<open>Python values and dictionaries\<close>

text \<open>
  The script \<^verbatim>\<open>download_yt.py\<close> builds its engine configuration from integers, strings,
  booleans, lists and dictionaries with string keys. A dictionary keeps its keys in
  insertion order, so it is an association list; a well-formed one has distinct keys.
\<close>

datatype pyval =
    PInt int
  | PStr string
  | PBool bool
  | PList "pyval list"
  | PDict "(string \<times> pyval) list"

type_synonym pydict = "(string \<times> pyval) list"

definition wf_dict :: "pydict \<Rightarrow> bool" where
  "wf_dict d = distinct (map fst d)"

datatype exn =
    SystemExit nat
  | NameError
  | TypeError
  | FileExistsError
  | PermissionError

text \<open>\<^verbatim>\<open>d[k] = v\<close>: an existing key keeps its place, a new key goes to the end.\<close>

definition dict_setitem :: "string \<Rightarrow> pyval \<Rightarrow> pydict \<Rightarrow> pydict" where
  "dict_setitem k v d = AList.update k v d"

text \<open>\<^verbatim>\<open>d.get(k, default)\<close>.\<close>

definition dict_get :: "pydict \<Rightarrow> string \<Rightarrow> pyval \<Rightarrow> pyval" where
  "dict_get d k dflt = (case map_of d k of None \<Rightarrow> dflt | Some v \<Rightarrow> v)"

text \<open>
  A dictionary display \<^verbatim>\<open>{**d, 'k': v, ...}\<close> starts from the empty dictionary and stores
  its items from left to right: \<^verbatim>\<open>'k': v\<close> stores one entry, \<^verbatim>\<open>**d\<close> stores every entry of
  \<^verbatim>\<open>d\<close> in the order of \<^verbatim>\<open>d\<close>. A later item overrides an earlier one with the same key.
\<close>

datatype item = Entry string pyval | Unpack pydict

primrec store_item :: "pydict \<Rightarrow> item \<Rightarrow> pydict" where
  "store_item acc (Entry k v) = dict_setitem k v acc"
| "store_item acc (Unpack d) = foldl (\<lambda>a (k, v). dict_setitem k v a) acc d"

definition dict_display :: "item list \<Rightarrow> pydict" where
  "dict_display items = foldl store_item [] items"

text \<open>
  \<^verbatim>\<open>*x\<close> inside a list display iterates over \<^verbatim>\<open>x\<close>: a list gives its elements, a string
  its characters, a dictionary its keys; an integer or a boolean is not iterable.
\<close>

fun iter_values :: "pyval \<Rightarrow> exn + pyval list" where
  "iter_values (PList xs) = Inr xs"
| "iter_values (PStr s) = Inr (map (\<lambda>c. PStr [c]) s)"
| "iter_values (PDict d) = Inr (map (\<lambda>(k, v). PStr k) d)"
| "iter_values (PInt i) = Inl TypeError"
| "iter_values (PBool b) = Inl TypeError"

section \<open>The configuration\<close>

text \<open>Lines 14 to 19: the reliability defaults.\<close>

definition cli_defaults_value :: pydict where
  "cli_defaults_value = dict_display
     [Entry ''fragment_retries'' (PInt 10),
      Entry ''ignoreerrors'' (PStr ''only_download''),
      Entry ''retries'' (PInt 10),
      Entry ''warn_when_outdated'' (PBool True)]"

text \<open>Lines 25 to 31: the step that converts the download to mp3.\<close>

definition extract_audio :: pyval where
  "extract_audio = PDict (dict_display
     [Entry ''key'' (PStr ''FFmpegExtractAudio''),
      Entry ''preferredcodec'' (PStr ''mp3''),
      Entry ''preferredquality'' (PStr ''0'')])"

text \<open>
  Lines 24 to 33: \<^verbatim>\<open>[{...}, *cli_defaults.get('postprocessors', [])]\<close>, for the
  dictionary \<^verbatim>\<open>d\<close> bound to \<^verbatim>\<open>cli_defaults\<close>.
\<close>

definition postprocessors_value :: "pydict \<Rightarrow> exn + pyval" where
  "postprocessors_value d =
     (case iter_values (dict_get d ''postprocessors'' (PList [])) of
        Inl e \<Rightarrow> Inl e
      | Inr steps \<Rightarrow> Inr (PList (extract_audio # steps)))"

text \<open>Line 34: \<^verbatim>\<open>f'{OUTPUT_DIRECTORY}/%(uploader)s - %(title)s.%(ext)s'\<close>.\<close>

definition outtmpl_value :: "string \<Rightarrow> pyval" where
  "outtmpl_value out = PStr (out @ ''/%(uploader)s - %(title)s.%(ext)s'')"

text \<open>
  Lines 21 to 36: the display bound to \<^verbatim>\<open>ydl_opts\<close>, given the dictionary \<^verbatim>\<open>d\<close> of
  \<^verbatim>\<open>cli_defaults\<close>, the list \<^verbatim>\<open>pp\<close> of post-processing steps and the string \<^verbatim>\<open>out\<close> of
  \<^verbatim>\<open>OUTPUT_DIRECTORY\<close>.
\<close>

definition ydl_opts_display :: "pydict \<Rightarrow> pyval \<Rightarrow> string \<Rightarrow> pydict" where
  "ydl_opts_display d pp out = dict_display
     [Unpack d,
      Entry ''format'' (PStr ''bestaudio/best''),
      Entry ''postprocessors'' pp,
      Entry ''outtmpl'' (outtmpl_value out)]"

text \<open>The merge as a function of the reliability defaults and the output directory.\<close>

definition ydl_opts_value :: "pydict \<Rightarrow> string \<Rightarrow> exn + pydict" where
  "ydl_opts_value d out =
     (case postprocessors_value d of
        Inl e \<Rightarrow> Inl e
      | Inr pp \<Rightarrow> Inr (ydl_opts_display d pp out))"

section \<open>The command line\<close>

text \<open>
  The words after the program name, as the argument parser of lines 5 to 7 classifies
  them: a positional word, the help option that every parser has unless it is switched
  off (\<^verbatim>\<open>-h\<close>, \<^verbatim>\<open>--help\<close>), or an option the parser does not know. A help option
  written with an argument of its own (\<^verbatim>\<open>--help=1\<close>) is none of the three.
\<close>

datatype word = Positional string | HelpFlag | UnknownFlag string

fun positionals :: "word list \<Rightarrow> string list" where
  "positionals [] = []"
| "positionals (Positional u # ws) = u # positionals ws"
| "positionals (HelpFlag # ws) = positionals ws"
| "positionals (UnknownFlag f # ws) = positionals ws"

fun is_unknown :: "word \<Rightarrow> bool" where
  "is_unknown (UnknownFlag f) = True"
| "is_unknown (Positional u) = False"
| "is_unknown HelpFlag = False"

text \<open>
  \<^verbatim>\<open>parser.parse_args()\<close> followed by \<^verbatim>\<open>args.url\<close>, for a parser whose only argument is
  the positional \<^verbatim>\<open>url\<close>. The help option prints the usage and exits with status 0 as soon
  as it is met; a missing \<^verbatim>\<open>url\<close>, a second positional word and an unknown option are
  reported after all words are read and exit with status 2. Otherwise the single
  positional word is the URL, as it stands.
\<close>

definition parse_args :: "word list \<Rightarrow> exn + string" where
  "parse_args argv =
     (if HelpFlag \<in> set argv then Inl (SystemExit 0)
      else if list_ex is_unknown argv then Inl (SystemExit 2)
      else (case positionals argv of
              [u] \<Rightarrow> Inr u
            | _ \<Rightarrow> Inl (SystemExit 2)))"

section \<open>The state of a run\<close>

text \<open>
  The working directory is a tree of files and directories. \<^verbatim>\<open>cwd_searchable\<close> and
  \<^verbatim>\<open>cwd_writable\<close> are the permissions of the process on it: to look a name up in it,
  and to add an entry to it. The engine is a black box: the state
  records each call of \<^verbatim>\<open>YoutubeDL(opts).download(urls)\<close> with its two arguments, and
  nothing of what the engine does afterwards. The four globals of the script are unbound
  until their assignment runs.
\<close>

datatype node = File string | Dir "(string \<times> node) list"

datatype engine_call = Download pydict "string list"

record state =
  cwd :: "(string \<times> node) list"
  cwd_searchable :: bool
  cwd_writable :: bool
  engine_calls :: "engine_call list"
  youtube_url :: "string option"
  OUTPUT_DIRECTORY :: "string option"
  cli_defaults :: "pydict option"
  ydl_opts :: "pydict option"

definition initial :: "(string \<times> node) list \<Rightarrow> bool \<Rightarrow> bool \<Rightarrow> state" where
  "initial fs x w =
     \<lparr>cwd = fs, cwd_searchable = x, cwd_writable = w, engine_calls = [],
      youtube_url = None, OUTPUT_DIRECTORY = None, cli_defaults = None, ydl_opts = None\<rparr>"

definition is_directory :: "(string \<times> node) list \<Rightarrow> string \<Rightarrow> bool" where
  "is_directory fs name = (case map_of fs name of Some (Dir entries) \<Rightarrow> True | _ \<Rightarrow> False)"

text \<open>
  A statement either completes in a new state or raises; a statement that raises leaves
  the state as it found it, and the statements after it do not run.
\<close>

type_synonym stmt = "state \<Rightarrow> exn option \<times> state"

definition seq :: "stmt \<Rightarrow> stmt \<Rightarrow> stmt" where
  "seq f g s = (case f s of (Some e, s') \<Rightarrow> (Some e, s') | (None, s') \<Rightarrow> g s')"

text \<open>Lines 7 and 9.\<close>

definition stmt_parse_args :: "word list \<Rightarrow> stmt" where
  "stmt_parse_args argv s =
     (case parse_args argv of
        Inl e \<Rightarrow> (Some e, s)
      | Inr u \<Rightarrow> (None, s\<lparr>youtube_url := Some u\<rparr>))"

text \<open>Line 11.\<close>

definition stmt_output_directory :: stmt where
  "stmt_output_directory s = (None, s\<lparr>OUTPUT_DIRECTORY := Some ''downloads''\<rparr>)"

text \<open>
  \<^verbatim>\<open>os.makedirs(name, exist_ok=...)\<close> for a name of one path component, relative to the
  working directory, which is how line 12 calls it. It asks the system to make the
  directory and, when that is refused and \<^verbatim>\<open>exist_ok\<close> is set, accepts the refusal only
  if the name is found to be a directory. In a working directory the process may not
  search, the request is refused with \<^verbatim>\<open>PermissionError\<close> and the name cannot be looked
  up, whatever is there. Otherwise an existing directory is accepted when \<^verbatim>\<open>exist_ok\<close>
  is set; any other existing entry raises \<^verbatim>\<open>FileExistsError\<close>; a missing entry is created
  as an empty directory if the process may write the working directory, and raises
  \<^verbatim>\<open>PermissionError\<close> if not.
\<close>

definition makedirs :: "string \<Rightarrow> bool \<Rightarrow> stmt" where
  "makedirs name exist_ok s =
     (if \<not> cwd_searchable s then (Some PermissionError, s)
      else
        (case map_of (cwd s) name of
           Some (Dir entries) \<Rightarrow> if exist_ok then (None, s) else (Some FileExistsError, s)
         | Some (File bytes) \<Rightarrow> (Some FileExistsError, s)
         | None \<Rightarrow>
             if cwd_writable s then (None, s\<lparr>cwd := cwd s @ [(name, Dir [])]\<rparr>)
             else (Some PermissionError, s)))"

text \<open>Line 12.\<close>

definition stmt_makedirs :: stmt where
  "stmt_makedirs s =
     (case OUTPUT_DIRECTORY s of
        None \<Rightarrow> (Some NameError, s)
      | Some out \<Rightarrow> makedirs out True s)"

text \<open>Lines 14 to 19.\<close>

definition stmt_cli_defaults :: stmt where
  "stmt_cli_defaults s = (None, s\<lparr>cli_defaults := Some cli_defaults_value\<rparr>)"

text \<open>
  Lines 21 to 36. The display reads \<^verbatim>\<open>cli_defaults\<close> first, builds the list of
  post-processing steps next and reads \<^verbatim>\<open>OUTPUT_DIRECTORY\<close> last.
\<close>

definition stmt_ydl_opts :: stmt where
  "stmt_ydl_opts s =
     (case cli_defaults s of
        None \<Rightarrow> (Some NameError, s)
      | Some d \<Rightarrow>
          (case postprocessors_value d of
             Inl e \<Rightarrow> (Some e, s)
           | Inr pp \<Rightarrow>
               (case OUTPUT_DIRECTORY s of
                  None \<Rightarrow> (Some NameError, s)
                | Some out \<Rightarrow> (None, s\<lparr>ydl_opts := Some (ydl_opts_display d pp out)\<rparr>))))"

text \<open>Lines 38 and 39.\<close>

definition stmt_download :: stmt where
  "stmt_download s =
     (case ydl_opts s of
        None \<Rightarrow> (Some NameError, s)
      | Some opts \<Rightarrow>
          (case youtube_url s of
             None \<Rightarrow> (Some NameError, s)
           | Some u \<Rightarrow> (None, s\<lparr>engine_calls := engine_calls s @ [Download opts [u]]\<rparr>)))"

text \<open>The script, from a state in which nothing is bound and the engine was not called.\<close>

definition script :: "word list \<Rightarrow> stmt" where
  "script argv =
     seq (stmt_parse_args argv)
    (seq stmt_output_directory
    (seq stmt_makedirs
    (seq stmt_cli_defaults
    (seq stmt_ydl_opts
         stmt_download))))"

definition run ::
  "word list \<Rightarrow> (string \<times> node) list \<Rightarrow> bool \<Rightarrow> bool \<Rightarrow> exn option \<times> state" where
  "run argv fs x w = script argv (initial fs x w)"

text \<open>Lines 5 to 12 alone: the script up to and including the creation of the directory.\<close>

definition script_to_line_12 :: "word list \<Rightarrow> stmt" where
  "script_to_line_12 argv =
     seq (stmt_parse_args argv)
    (seq stmt_output_directory
         stmt_makedirs)"

definition run_to_line_12 ::
  "word list \<Rightarrow> (string \<times> node) list \<Rightarrow> bool \<Rightarrow> bool \<Rightarrow> exn option \<times> state" where
  "run_to_line_12 argv fs x w = script_to_line_12 argv (initial fs x w)"

section \<open>Dictionary displays\<close>

lemma setitem_fresh:
  "k \<notin> fst ` set acc \<Longrightarrow> dict_setitem k v acc = acc @ [(k, v)]"
  by (induction acc) (auto simp: dict_setitem_def)

lemma unpack_append:
  "distinct (map fst (acc @ d)) \<Longrightarrow> foldl (\<lambda>a (k, v). dict_setitem k v a) acc d = acc @ d"
proof (induction d arbitrary: acc)
  case Nil
  then show ?case by simp
next
  case (Cons p d)
  obtain k v where p: "p = (k, v)" by (cases p)
  from Cons.prems p have fresh: "k \<notin> fst ` set acc" by auto
  from Cons.prems p have "distinct (map fst ((acc @ [(k, v)]) @ d))" by auto
  then have "foldl (\<lambda>a (k, v). dict_setitem k v a) (acc @ [(k, v)]) d = (acc @ [(k, v)]) @ d"
    by (rule Cons.IH)
  with fresh p show ?case by (simp add: setitem_fresh)
qed

lemma unpack_wf: "wf_dict d \<Longrightarrow> store_item [] (Unpack d) = d"
  using unpack_append [of "[]" d] by (simp add: wf_dict_def)

lemma map_of_setitem: "map_of (dict_setitem k v d) = (map_of d)(k \<mapsto> v)"
  by (simp add: dict_setitem_def update_conv')

lemma wf_setitem: "wf_dict d \<Longrightarrow> wf_dict (dict_setitem k v d)"
  by (simp add: wf_dict_def dict_setitem_def distinct_update)

lemma ydl_opts_display_wf:
  "wf_dict d \<Longrightarrow> ydl_opts_display d pp out =
     dict_setitem ''outtmpl'' (outtmpl_value out)
       (dict_setitem ''postprocessors'' pp
         (dict_setitem ''format'' (PStr ''bestaudio/best'') d))"
  using unpack_wf [of d] by (simp add: ydl_opts_display_def dict_display_def)

lemma map_of_ydl_opts_display:
  "wf_dict d \<Longrightarrow> map_of (ydl_opts_display d pp out) =
     (map_of d)(''format'' \<mapsto> PStr ''bestaudio/best'', ''postprocessors'' \<mapsto> pp,
                ''outtmpl'' \<mapsto> outtmpl_value out)"
  by (simp add: ydl_opts_display_wf map_of_setitem)

lemma wf_ydl_opts_display: "wf_dict d \<Longrightarrow> wf_dict (ydl_opts_display d pp out)"
  by (simp add: ydl_opts_display_wf wf_setitem)

lemma cli_defaults_value_eq:
  "cli_defaults_value =
     [(''fragment_retries'', PInt 10), (''ignoreerrors'', PStr ''only_download''),
      (''retries'', PInt 10), (''warn_when_outdated'', PBool True)]"
  by (simp add: cli_defaults_value_def dict_display_def dict_setitem_def)

lemma wf_cli_defaults_value: "wf_dict cli_defaults_value"
  by (simp add: cli_defaults_value_eq wf_dict_def)

lemma extract_audio_eq:
  "extract_audio = PDict [(''key'', PStr ''FFmpegExtractAudio''),
      (''preferredcodec'', PStr ''mp3''), (''preferredquality'', PStr ''0'')]"
  by (simp add: extract_audio_def dict_display_def dict_setitem_def)

lemma postprocessors_cli_defaults:
  "postprocessors_value cli_defaults_value = Inr (PList [extract_audio])"
  by (simp add: postprocessors_value_def dict_get_def cli_defaults_value_eq)


lemma ydl_opts_value_cli_defaults:
  "ydl_opts_value cli_defaults_value out =
     Inr (ydl_opts_display cli_defaults_value (PList [extract_audio]) out)"
  by (simp add: ydl_opts_value_def postprocessors_cli_defaults)

lemma ydl_opts_display_cli_defaults:
  "ydl_opts_display cli_defaults_value (PList [extract_audio]) ''downloads'' =
     [(''fragment_retries'', PInt 10), (''ignoreerrors'', PStr ''only_download''),
      (''retries'', PInt 10), (''warn_when_outdated'', PBool True),
      (''format'', PStr ''bestaudio/best''),
      (''postprocessors'', PList [extract_audio]),
      (''outtmpl'', PStr ''downloads/%(uploader)s - %(title)s.%(ext)s'')]"
  by (simp add: ydl_opts_display_wf wf_cli_defaults_value)
     (simp add: cli_defaults_value_eq dict_setitem_def outtmpl_value_def)

lemma script_from_line_12:
  "script argv =
     seq (script_to_line_12 argv) (seq stmt_cli_defaults (seq stmt_ydl_opts stmt_download))"
  by (rule ext) (simp add: script_def script_to_line_12_def seq_def split: prod.splits option.splits)

lemma run_parse_error:
  "parse_args argv = Inl e \<Longrightarrow> run argv fs x w = (Some e, initial fs x w)"
  by (simp add: run_def script_def seq_def stmt_parse_args_def)

lemma run_dir_exists:
  assumes "parse_args argv = Inr u" and "x" and "is_directory fs ''downloads''"
  shows "run argv fs x w =
    (None, \<lparr>cwd = fs, cwd_searchable = x, cwd_writable = w,
       engine_calls =
         [Download (ydl_opts_display cli_defaults_value (PList [extract_audio]) ''downloads'') [u]],
       youtube_url = Some u, OUTPUT_DIRECTORY = Some ''downloads'',
       cli_defaults = Some cli_defaults_value,
       ydl_opts = Some (ydl_opts_display cli_defaults_value (PList [extract_audio]) ''downloads'')\<rparr>)"
  using assms
  by (simp add: run_def script_def seq_def stmt_parse_args_def stmt_output_directory_def
      stmt_makedirs_def makedirs_def stmt_cli_defaults_def stmt_ydl_opts_def stmt_download_def
      initial_def is_directory_def postprocessors_cli_defaults
      split: option.splits node.splits)

lemma run_dir_created:
  assumes "parse_args argv = Inr u" and "x" and "map_of fs ''downloads'' = None" and "w"
  shows "run argv fs x w =
    (None, \<lparr>cwd = fs @ [(''downloads'', Dir [])], cwd_searchable = x, cwd_writable = w,
       engine_calls =
         [Download (ydl_opts_display cli_defaults_value (PList [extract_audio]) ''downloads'') [u]],
       youtube_url = Some u, OUTPUT_DIRECTORY = Some ''downloads'',
       cli_defaults = Some cli_defaults_value,
       ydl_opts = Some (ydl_opts_display cli_defaults_value (PList [extract_audio]) ''downloads'')\<rparr>)"
  using assms
  by (simp add: run_def script_def seq_def stmt_parse_args_def stmt_output_directory_def
      stmt_makedirs_def makedirs_def stmt_cli_defaults_def stmt_ydl_opts_def stmt_download_def
      initial_def postprocessors_cli_defaults)

lemma run_dir_refused:
  assumes "parse_args argv = Inr u"
    and "\<not> (x \<and> (is_directory fs ''downloads'' \<or> (map_of fs ''downloads'' = None \<and> w)))"
  shows "run argv fs x w =
    (Some (if x \<and> map_of fs ''downloads'' \<noteq> None then FileExistsError else PermissionError),
     \<lparr>cwd = fs, cwd_searchable = x, cwd_writable = w, engine_calls = [],
       youtube_url = Some u, OUTPUT_DIRECTORY = Some ''downloads'',
       cli_defaults = None, ydl_opts = None\<rparr>)"
  using assms
  by (auto simp add: run_def script_def seq_def stmt_parse_args_def stmt_output_directory_def
      stmt_makedirs_def makedirs_def initial_def is_directory_def
      split: option.splits node.splits)

lemma run_dir_available:
  assumes "parse_args argv = Inr u"
    and "x \<and> (is_directory fs ''downloads'' \<or> (map_of fs ''downloads'' = None \<and> w))"
  shows "run argv fs x w =
    (None, \<lparr>cwd = (if is_directory fs ''downloads'' then fs else fs @ [(''downloads'', Dir [])]),
       cwd_searchable = x, cwd_writable = w,
       engine_calls =
         [Download (ydl_opts_display cli_defaults_value (PList [extract_audio]) ''downloads'') [u]],
       youtube_url = Some u, OUTPUT_DIRECTORY = Some ''downloads'',
       cli_defaults = Some cli_defaults_value,
       ydl_opts = Some (ydl_opts_display cli_defaults_value (PList [extract_audio]) ''downloads'')\<rparr>)"
proof (cases "is_directory fs ''downloads''")
  case True
  with assms show ?thesis by (simp add: run_dir_exists)
next
  case False
  with assms have "map_of fs ''downloads'' = None" and "w" and "x" by simp_all
  with assms(1) False show ?thesis by (simp add: run_dir_created)
qed

section \<open>What a run does\<close>

lemma run_ydl_opts_cases:
  "ydl_opts (snd (run argv fs x w)) = None \<or>
   ydl_opts (snd (run argv fs x w)) =
     Some (ydl_opts_display cli_defaults_value (PList [extract_audio]) ''downloads'')"
proof (cases "parse_args argv")
  case (Inl e)
  then show ?thesis by (simp add: run_parse_error initial_def)
next
  case (Inr u)
  show ?thesis
  proof (cases "x \<and> (is_directory fs ''downloads'' \<or> (map_of fs ''downloads'' = None \<and> w))")
    case True
    from run_dir_available [OF Inr True] show ?thesis by simp
  next
    case False
    from run_dir_refused [OF Inr False] show ?thesis by simp
  qed
qed

lemma run_engine_calls_cases:
  "engine_calls (snd (run argv fs x w)) = [] \<or>
   (\<exists>u. parse_args argv = Inr u \<and> engine_calls (snd (run argv fs x w)) =
     [Download (ydl_opts_display cli_defaults_value (PList [extract_audio]) ''downloads'') [u]])"
proof (cases "parse_args argv")
  case (Inl e)
  then show ?thesis by (simp add: run_parse_error initial_def)
next
  case (Inr u)
  show ?thesis
  proof (cases "x \<and> (is_directory fs ''downloads'' \<or> (map_of fs ''downloads'' = None \<and> w))")
    case True
    from run_dir_available [OF Inr True] Inr show ?thesis by simp
  next
    case False
    from run_dir_refused [OF Inr False] show ?thesis by simp
  qed
qed

lemma parse_one_positional: "parse_args [Positional u] = Inr u"
  by (simp add: parse_args_def)

lemma run_one_url_empty_dir:
  "run [Positional u] [] True True =
    (None, \<lparr>cwd = [(''downloads'', Dir [])], cwd_searchable = True, cwd_writable = True,
       engine_calls =
         [Download (ydl_opts_display cli_defaults_value (PList [extract_audio]) ''downloads'') [u]],
       youtube_url = Some u, OUTPUT_DIRECTORY = Some ''downloads'',
       cli_defaults = Some cli_defaults_value,
       ydl_opts = Some (ydl_opts_display cli_defaults_value (PList [extract_audio]) ''downloads'')\<rparr>)"
  using run_dir_created [of "[Positional u]" u True "[]" True] by (simp add: parse_one_positional)

lemma run_one_url:
  "run [Positional u] fs x w =
    (if x \<and> (is_directory fs ''downloads'' \<or> (map_of fs ''downloads'' = None \<and> w))
     then (None, \<lparr>cwd = (if is_directory fs ''downloads'' then fs
                          else fs @ [(''downloads'', Dir [])]),
        cwd_searchable = x, cwd_writable = w,
        engine_calls =
          [Download (ydl_opts_display cli_defaults_value (PList [extract_audio]) ''downloads'') [u]],
        youtube_url = Some u, OUTPUT_DIRECTORY = Some ''downloads'',
        cli_defaults = Some cli_defaults_value,
        ydl_opts = Some (ydl_opts_display cli_defaults_value (PList [extract_audio]) ''downloads'')\<rparr>)
     else (Some (if x \<and> map_of fs ''downloads'' \<noteq> None then FileExistsError
                 else PermissionError),
        \<lparr>cwd = fs, cwd_searchable = x, cwd_writable = w, engine_calls = [],
         youtube_url = Some u, OUTPUT_DIRECTORY = Some ''downloads'',
         cli_defaults = None, ydl_opts = None\<rparr>))"
proof (cases "x \<and> (is_directory fs ''downloads'' \<or> (map_of fs ''downloads'' = None \<and> w))")
  case True
  from run_dir_available [OF parse_one_positional True] True show ?thesis
    by (simp del: not_None_eq)
next
  case False
  from run_dir_refused [OF parse_one_positional False] False show ?thesis
    by (simp del: not_None_eq)
qed

lemma to_line_12_parse_error:
  "parse_args argv = Inl e \<Longrightarrow> run_to_line_12 argv fs x w = (Some e, initial fs x w)"
  by (simp add: run_to_line_12_def script_to_line_12_def seq_def stmt_parse_args_def)


section \<open>The claims\<close>

subsection \<open>C1\<close>

text \<open>
  C1. In every run the \<^verbatim>\<open>postprocessors\<close> list of the assembled configuration, as bound
  to \<^verbatim>\<open>ydl_opts\<close> and as handed to the engine, is the single step with key
  \<^verbatim>\<open>FFmpegExtractAudio\<close>, preferred codec \<^verbatim>\<open>mp3\<close> and preferred quality \<^verbatim>\<open>0\<close>: the
  reliability defaults have no \<^verbatim>\<open>postprocessors\<close> key, so the list appended from them is
  empty.
\<close>

theorem postprocessors_is_extract_audio_alone:
  "map_of cli_defaults_value ''postprocessors'' = None
   \<and> dict_get cli_defaults_value ''postprocessors'' (PList []) = PList []
   \<and> (\<forall>opts. ydl_opts (snd (run argv fs x w)) = Some opts \<longrightarrow>
        map_of opts ''postprocessors'' =
          Some (PList [PDict [(''key'', PStr ''FFmpegExtractAudio''),
                              (''preferredcodec'', PStr ''mp3''),
                              (''preferredquality'', PStr ''0'')]]))
   \<and> (\<forall>opts urls. Download opts urls \<in> set (engine_calls (snd (run argv fs x w))) \<longrightarrow>
        map_of opts ''postprocessors'' =
          Some (PList [PDict [(''key'', PStr ''FFmpegExtractAudio''),
                              (''preferredcodec'', PStr ''mp3''),
                              (''preferredquality'', PStr ''0'')]]))"
proof (intro conjI allI impI)
  show "map_of cli_defaults_value ''postprocessors'' = None"
    by (simp add: cli_defaults_value_eq)
  show "dict_get cli_defaults_value ''postprocessors'' (PList []) = PList []"
    by (simp add: cli_defaults_value_eq dict_get_def)
next
  fix opts
  assume "ydl_opts (snd (run argv fs x w)) = Some opts"
  with run_ydl_opts_cases [of argv fs x w]
  have "opts = ydl_opts_display cli_defaults_value (PList [extract_audio]) ''downloads''"
    by simp
  then show "map_of opts ''postprocessors'' =
          Some (PList [PDict [(''key'', PStr ''FFmpegExtractAudio''),
                              (''preferredcodec'', PStr ''mp3''),
                              (''preferredquality'', PStr ''0'')]])"
    by (simp add: ydl_opts_display_cli_defaults) (simp add: extract_audio_eq)
next
  fix opts urls
  assume "Download opts urls \<in> set (engine_calls (snd (run argv fs x w)))"
  with run_engine_calls_cases [of argv fs x w]
  have "opts = ydl_opts_display cli_defaults_value (PList [extract_audio]) ''downloads''"
    by auto
  then show "map_of opts ''postprocessors'' =
          Some (PList [PDict [(''key'', PStr ''FFmpegExtractAudio''),
                              (''preferredcodec'', PStr ''mp3''),
                              (''preferredquality'', PStr ''0'')]])"
    by (simp add: ydl_opts_display_cli_defaults) (simp add: extract_audio_eq)
qed

theorem postprocessors_is_extract_audio_alone_witness:
  "ydl_opts (snd (run [Positional ''https://youtu.be/a''] [] True True)) \<noteq> None
   \<and> map_of (the (ydl_opts (snd (run [Positional ''https://youtu.be/a''] [] True True))))
        ''postprocessors'' =
          Some (PList [PDict [(''key'', PStr ''FFmpegExtractAudio''),
                              (''preferredcodec'', PStr ''mp3''),
                              (''preferredquality'', PStr ''0'')]])
   \<and> Download (the (ydl_opts (snd (run [Positional ''https://youtu.be/a''] [] True True))))
        [''https://youtu.be/a'']
        \<in> set (engine_calls (snd (run [Positional ''https://youtu.be/a''] [] True True)))"
  using postprocessors_is_extract_audio_alone
    [of "[Positional ''https://youtu.be/a'']" "[]" True True]
  by (simp add: run_one_url_empty_dir)

subsection \<open>C2\<close>

text \<open>
  C2. For every dictionary of reliability defaults, a key that the format and output
  settings of the display also give (\<^verbatim>\<open>format\<close>, \<^verbatim>\<open>postprocessors\<close>, \<^verbatim>\<open>outtmpl\<close>) is
  mapped by the assembled configuration to the value of those settings, and every other
  key keeps the value the defaults give it.
\<close>

theorem ydl_opts_later_item_wins:
  assumes "wf_dict d" and "ydl_opts_value d out = Inr opts"
  shows "\<exists>pp. postprocessors_value d = Inr pp \<and>
     (\<forall>k. map_of opts k =
        (case map_of [(''format'', PStr ''bestaudio/best''), (''postprocessors'', pp),
                      (''outtmpl'', outtmpl_value out)] k of
           Some v \<Rightarrow> Some v
         | None \<Rightarrow> map_of d k))"
proof (cases "postprocessors_value d")
  case (Inl e)
  with assms(2) show ?thesis by (simp add: ydl_opts_value_def)
next
  case (Inr pp)
  with assms(2) have "opts = ydl_opts_display d pp out"
    by (simp add: ydl_opts_value_def)
  with assms(1) have "map_of opts =
     (map_of d)(''format'' \<mapsto> PStr ''bestaudio/best'', ''postprocessors'' \<mapsto> pp,
                ''outtmpl'' \<mapsto> outtmpl_value out)"
    by (simp add: map_of_ydl_opts_display)
  then have "\<forall>k. map_of opts k =
        (case map_of [(''format'', PStr ''bestaudio/best''), (''postprocessors'', pp),
                      (''outtmpl'', outtmpl_value out)] k of
           Some v \<Rightarrow> Some v
         | None \<Rightarrow> map_of d k)"
    by simp
  with Inr show ?thesis by simp
qed

theorem ydl_opts_later_item_wins_witness:
  "wf_dict [(''format'', PStr ''worst''), (''retries'', PInt 3)]
   \<and> ydl_opts_value [(''format'', PStr ''worst''), (''retries'', PInt 3)] ''downloads'' =
       Inr [(''format'', PStr ''bestaudio/best''), (''retries'', PInt 3),
            (''postprocessors'', PList [extract_audio]),
            (''outtmpl'', PStr ''downloads/%(uploader)s - %(title)s.%(ext)s'')]
   \<and> map_of [(''format'', PStr ''bestaudio/best''), (''retries'', PInt 3),
            (''postprocessors'', PList [extract_audio]),
            (''outtmpl'', PStr ''downloads/%(uploader)s - %(title)s.%(ext)s'')] ''format''
       = Some (PStr ''bestaudio/best'')
   \<and> map_of [(''format'', PStr ''bestaudio/best''), (''retries'', PInt 3),
            (''postprocessors'', PList [extract_audio]),
            (''outtmpl'', PStr ''downloads/%(uploader)s - %(title)s.%(ext)s'')] ''retries''
       = Some (PInt 3)"
proof -
  have wf: "wf_dict [(''format'', PStr ''worst''), (''retries'', PInt 3)]"
    by (simp add: wf_dict_def)
  have v: "ydl_opts_value [(''format'', PStr ''worst''), (''retries'', PInt 3)] ''downloads'' =
       Inr [(''format'', PStr ''bestaudio/best''), (''retries'', PInt 3),
            (''postprocessors'', PList [extract_audio]),
            (''outtmpl'', PStr ''downloads/%(uploader)s - %(title)s.%(ext)s'')]"
    by (simp add: ydl_opts_value_def postprocessors_value_def dict_get_def ydl_opts_display_def
        dict_display_def dict_setitem_def outtmpl_value_def)
  from ydl_opts_later_item_wins [OF wf v] wf v show ?thesis by simp
qed

subsection \<open>C3\<close>

text \<open>
  C3. For every dictionary of reliability defaults, the steps it supplies under
  \<^verbatim>\<open>postprocessors\<close> follow the transcoding step in the assembled list, in their order
  and with none left out; without that key the list is the transcoding step alone.
\<close>

theorem default_postprocessors_appended:
  assumes "wf_dict d"
  shows "(map_of d ''postprocessors'' = None \<longrightarrow>
            (\<exists>opts. ydl_opts_value d out = Inr opts \<and>
               map_of opts ''postprocessors'' = Some (PList [extract_audio])))
       \<and> (\<forall>steps. map_of d ''postprocessors'' = Some (PList steps) \<longrightarrow>
            (\<exists>opts. ydl_opts_value d out = Inr opts \<and>
               map_of opts ''postprocessors'' = Some (PList (extract_audio # steps))))"
  using assms
  by (simp add: ydl_opts_value_def postprocessors_value_def dict_get_def map_of_ydl_opts_display)

theorem default_postprocessors_appended_witness:
  "wf_dict [(''retries'', PInt 3),
            (''postprocessors'', PList [PDict [(''key'', PStr ''EmbedThumbnail'')],
                                        PDict [(''key'', PStr ''FFmpegMetadata'')]])]
   \<and> map_of [(''retries'', PInt 3),
            (''postprocessors'', PList [PDict [(''key'', PStr ''EmbedThumbnail'')],
                                        PDict [(''key'', PStr ''FFmpegMetadata'')]])]
        ''postprocessors'' =
       Some (PList [PDict [(''key'', PStr ''EmbedThumbnail'')],
                    PDict [(''key'', PStr ''FFmpegMetadata'')]])
   \<and> (\<exists>opts. ydl_opts_value [(''retries'', PInt 3),
            (''postprocessors'', PList [PDict [(''key'', PStr ''EmbedThumbnail'')],
                                        PDict [(''key'', PStr ''FFmpegMetadata'')]])] ''downloads''
          = Inr opts
        \<and> map_of opts ''postprocessors'' =
            Some (PList [extract_audio, PDict [(''key'', PStr ''EmbedThumbnail'')],
                         PDict [(''key'', PStr ''FFmpegMetadata'')]]))"
proof -
  have wf: "wf_dict [(''retries'', PInt 3),
            (''postprocessors'', PList [PDict [(''key'', PStr ''EmbedThumbnail'')],
                                        PDict [(''key'', PStr ''FFmpegMetadata'')]])]"
    by (simp add: wf_dict_def)
  from default_postprocessors_appended [OF wf, of "''downloads''"] wf show ?thesis by simp
qed

subsection \<open>C4\<close>

text \<open>
  C4. Running the merge a second time on the same inputs gives the configuration that
  running it once gives, and the outcome of the merge depends on nothing but the two
  variables it reads.
\<close>

theorem merge_twice_is_merge_once:
  "seq stmt_ydl_opts stmt_ydl_opts s = stmt_ydl_opts s
   \<and> (cli_defaults s = cli_defaults t \<and> OUTPUT_DIRECTORY s = OUTPUT_DIRECTORY t \<longrightarrow>
        fst (stmt_ydl_opts s) = fst (stmt_ydl_opts t)
        \<and> (fst (stmt_ydl_opts s) = None \<longrightarrow>
             ydl_opts (snd (stmt_ydl_opts s)) = ydl_opts (snd (stmt_ydl_opts t))))"
  by (simp add: seq_def stmt_ydl_opts_def split: option.splits sum.splits)

theorem merge_twice_is_merge_once_witness:
  "fst (stmt_ydl_opts ((initial [] True True)
          \<lparr>OUTPUT_DIRECTORY := Some ''downloads'', cli_defaults := Some cli_defaults_value\<rparr>)) = None
   \<and> ydl_opts (snd (stmt_ydl_opts ((initial [] True True)
          \<lparr>OUTPUT_DIRECTORY := Some ''downloads'', cli_defaults := Some cli_defaults_value\<rparr>))) =
     ydl_opts (snd (stmt_ydl_opts ((initial [(''downloads'', Dir [])] True False)
          \<lparr>youtube_url := Some ''u'', OUTPUT_DIRECTORY := Some ''downloads'',
            cli_defaults := Some cli_defaults_value\<rparr>)))"
  using merge_twice_is_merge_once
    [of "(initial [] True True)
          \<lparr>OUTPUT_DIRECTORY := Some ''downloads'', cli_defaults := Some cli_defaults_value\<rparr>"
        "(initial [(''downloads'', Dir [])] True False)
          \<lparr>youtube_url := Some ''u'', OUTPUT_DIRECTORY := Some ''downloads'',
            cli_defaults := Some cli_defaults_value\<rparr>"]
  by (simp add: stmt_ydl_opts_def postprocessors_cli_defaults initial_def)

text \<open>
  The merge is not a projection, though: given its own result as the defaults, it puts
  the transcoding step in front of the list once more.
\<close>

lemma ydl_opts_value_of_its_result:
  "ydl_opts_value (ydl_opts_display cli_defaults_value (PList [extract_audio]) ''downloads'')
     ''downloads'' =
   Inr [(''fragment_retries'', PInt 10), (''ignoreerrors'', PStr ''only_download''),
        (''retries'', PInt 10), (''warn_when_outdated'', PBool True),
        (''format'', PStr ''bestaudio/best''),
        (''postprocessors'', PList [extract_audio, extract_audio]),
        (''outtmpl'', PStr ''downloads/%(uploader)s - %(title)s.%(ext)s'')]"
  by (simp add: ydl_opts_display_cli_defaults)
     (simp add: ydl_opts_value_def postprocessors_value_def dict_get_def ydl_opts_display_def
        dict_display_def dict_setitem_def outtmpl_value_def)

subsection \<open>C5\<close>




subsection \<open>C6\<close>




subsection \<open>C7\<close>

text \<open>
  C7. In every run the assembled configuration, as bound to \<^verbatim>\<open>ydl_opts\<close> and as handed
  to the engine, maps \<^verbatim>\<open>ignoreerrors\<close> to \<^verbatim>\<open>only_download\<close> and \<^verbatim>\<open>outtmpl\<close> to
  \<^verbatim>\<open>downloads/%(uploader)s - %(title)s.%(ext)s\<close>.
\<close>

theorem ignoreerrors_and_outtmpl:
  "(\<forall>opts. ydl_opts (snd (run argv fs x w)) = Some opts \<longrightarrow>
      map_of opts ''ignoreerrors'' = Some (PStr ''only_download'')
      \<and> map_of opts ''outtmpl'' = Some (PStr ''downloads/%(uploader)s - %(title)s.%(ext)s''))
   \<and> (\<forall>opts urls. Download opts urls \<in> set (engine_calls (snd (run argv fs x w))) \<longrightarrow>
      map_of opts ''ignoreerrors'' = Some (PStr ''only_download'')
      \<and> map_of opts ''outtmpl'' = Some (PStr ''downloads/%(uploader)s - %(title)s.%(ext)s''))"
proof (intro conjI allI impI)
  fix opts
  assume "ydl_opts (snd (run argv fs x w)) = Some opts"
  with run_ydl_opts_cases [of argv fs x w]
  have opts: "opts = ydl_opts_display cli_defaults_value (PList [extract_audio]) ''downloads''"
    by simp
  show "map_of opts ''ignoreerrors'' = Some (PStr ''only_download'')"
    by (simp add: opts ydl_opts_display_cli_defaults)
  show "map_of opts ''outtmpl'' = Some (PStr ''downloads/%(uploader)s - %(title)s.%(ext)s'')"
    by (simp add: opts ydl_opts_display_cli_defaults)
next
  fix opts urls
  assume "Download opts urls \<in> set (engine_calls (snd (run argv fs x w)))"
  with run_engine_calls_cases [of argv fs x w]
  have opts: "opts = ydl_opts_display cli_defaults_value (PList [extract_audio]) ''downloads''"
    by auto
  show "map_of opts ''ignoreerrors'' = Some (PStr ''only_download'')"
    by (simp add: opts ydl_opts_display_cli_defaults)
  show "map_of opts ''outtmpl'' = Some (PStr ''downloads/%(uploader)s - %(title)s.%(ext)s'')"
    by (simp add: opts ydl_opts_display_cli_defaults)
qed

theorem ignoreerrors_and_outtmpl_witness:
  "ydl_opts (snd (run [Positional ''https://youtu.be/b''] [(''downloads'', Dir [])] True False)) \<noteq> None
   \<and> map_of (the (ydl_opts (snd (run [Positional ''https://youtu.be/b'']
                                    [(''downloads'', Dir [])] True False)))) ''ignoreerrors''
       = Some (PStr ''only_download'')
   \<and> map_of (the (ydl_opts (snd (run [Positional ''https://youtu.be/b'']
                                    [(''downloads'', Dir [])] True False)))) ''outtmpl''
       = Some (PStr ''downloads/%(uploader)s - %(title)s.%(ext)s'')"
proof -
  have "run [Positional ''https://youtu.be/b''] [(''downloads'', Dir [])] True False =
    (None, \<lparr>cwd = [(''downloads'', Dir [])], cwd_searchable = True, cwd_writable = False,
       engine_calls =
         [Download (ydl_opts_display cli_defaults_value (PList [extract_audio]) ''downloads'')
            [''https://youtu.be/b'']],
       youtube_url = Some ''https://youtu.be/b'', OUTPUT_DIRECTORY = Some ''downloads'',
       cli_defaults = Some cli_defaults_value,
       ydl_opts = Some (ydl_opts_display cli_defaults_value (PList [extract_audio]) ''downloads'')\<rparr>)"
    by (rule run_dir_exists) (simp_all add: parse_one_positional is_directory_def)
  with ignoreerrors_and_outtmpl
    [of "[Positional ''https://youtu.be/b'']" "[(''downloads'', Dir [])]" True False]
  show ?thesis by simp
qed

subsection \<open>C8\<close>

text \<open>
  C8. Run with no argument, the script stops in the argument parser with exit status 2:
  the working directory is as it was and the engine is not called. The same holds for
  every command line without a URL that does not ask for help, and no exit of the parser
  has any effect.
\<close>

theorem no_url_no_effect:
  "run [] fs x w = (Some (SystemExit 2), initial fs x w)
   \<and> cwd (snd (run [] fs x w)) = fs
   \<and> engine_calls (snd (run [] fs x w)) = []
   \<and> (positionals argv = [] \<and> HelpFlag \<notin> set argv \<longrightarrow>
        run argv fs x w = (Some (SystemExit 2), initial fs x w))
   \<and> (\<forall>e. parse_args argv = Inl e \<longrightarrow>
        run argv fs x w = (Some e, initial fs x w)
        \<and> cwd (snd (run argv fs x w)) = fs \<and> engine_calls (snd (run argv fs x w)) = [])"
proof (intro conjI allI impI)
  have "parse_args [] = Inl (SystemExit 2)" by (simp add: parse_args_def)
  then show none: "run [] fs x w = (Some (SystemExit 2), initial fs x w)" by (rule run_parse_error)
  show "cwd (snd (run [] fs x w)) = fs" by (simp add: none) (simp add: initial_def)
  show "engine_calls (snd (run [] fs x w)) = []" by (simp add: none) (simp add: initial_def)
next
  assume "positionals argv = [] \<and> HelpFlag \<notin> set argv"
  then have "parse_args argv = Inl (SystemExit 2)" by (simp add: parse_args_def)
  then show "run argv fs x w = (Some (SystemExit 2), initial fs x w)" by (rule run_parse_error)
next
  fix e
  assume e: "parse_args argv = Inl e"
  then show r: "run argv fs x w = (Some e, initial fs x w)" by (rule run_parse_error)
  show "cwd (snd (run argv fs x w)) = fs" by (simp add: r) (simp add: initial_def)
  show "engine_calls (snd (run argv fs x w)) = []" by (simp add: r) (simp add: initial_def)
qed

theorem no_url_no_effect_witness:
  "parse_args [UnknownFlag ''--verbose''] = Inl (SystemExit 2)
   \<and> run [UnknownFlag ''--verbose''] [(''notes.txt'', File ''x'')] True True =
       (Some (SystemExit 2), initial [(''notes.txt'', File ''x'')] True True)
   \<and> run [] [(''notes.txt'', File ''x'')] True True =
       (Some (SystemExit 2), initial [(''notes.txt'', File ''x'')] True True)"
proof -
  have p: "parse_args [UnknownFlag ''--verbose''] = Inl (SystemExit 2)"
    by (simp add: parse_args_def)
  from no_url_no_effect
    [of "[(''notes.txt'', File ''x'')]" True True "[UnknownFlag ''--verbose'']"] p
  show ?thesis by simp
qed

subsection \<open>C9\<close>

text \<open>
  C9. Two runs from the same working directory that differ only in the URL end the same
  way, bind the same configuration and differ in nothing but the URL variable and the URL
  handed to the engine; and any two runs that assemble a configuration assemble the
  same one.
\<close>

theorem ydl_opts_independent_of_url:
  "fst (run [Positional u1] fs x w) = fst (run [Positional u2] fs x w)
   \<and> ydl_opts (snd (run [Positional u1] fs x w)) = ydl_opts (snd (run [Positional u2] fs x w))
   \<and> (snd (run [Positional u1] fs x w))\<lparr>youtube_url := None, engine_calls := []\<rparr> =
       (snd (run [Positional u2] fs x w))\<lparr>youtube_url := None, engine_calls := []\<rparr>
   \<and> engine_calls (snd (run [Positional u1] fs x w)) =
       map (\<lambda>c. case c of Download opts urls \<Rightarrow> Download opts [u1])
         (engine_calls (snd (run [Positional u2] fs x w)))
   \<and> (\<forall>c1 c2. ydl_opts (snd (run argv1 fs1 x1 w1)) = Some c1 \<and>
               ydl_opts (snd (run argv2 fs2 x2 w2)) = Some c2 \<longrightarrow> c1 = c2)"
proof (intro conjI allI impI)
  show "fst (run [Positional u1] fs x w) = fst (run [Positional u2] fs x w)"
    by (cases "x \<and> (is_directory fs ''downloads'' \<or> (map_of fs ''downloads'' = None \<and> w))")
       (simp_all add: run_dir_available [OF parse_one_positional]
          run_dir_refused [OF parse_one_positional])
  show "ydl_opts (snd (run [Positional u1] fs x w)) = ydl_opts (snd (run [Positional u2] fs x w))"
    by (cases "x \<and> (is_directory fs ''downloads'' \<or> (map_of fs ''downloads'' = None \<and> w))")
       (simp_all add: run_dir_available [OF parse_one_positional]
          run_dir_refused [OF parse_one_positional])
  show "(snd (run [Positional u1] fs x w))\<lparr>youtube_url := None, engine_calls := []\<rparr> =
       (snd (run [Positional u2] fs x w))\<lparr>youtube_url := None, engine_calls := []\<rparr>"
    by (cases "x \<and> (is_directory fs ''downloads'' \<or> (map_of fs ''downloads'' = None \<and> w))")
       (simp_all add: run_dir_available [OF parse_one_positional]
          run_dir_refused [OF parse_one_positional])
  show "engine_calls (snd (run [Positional u1] fs x w)) =
       map (\<lambda>c. case c of Download opts urls \<Rightarrow> Download opts [u1])
         (engine_calls (snd (run [Positional u2] fs x w)))"
    by (cases "x \<and> (is_directory fs ''downloads'' \<or> (map_of fs ''downloads'' = None \<and> w))")
       (simp_all add: run_dir_available [OF parse_one_positional]
          run_dir_refused [OF parse_one_positional])
next
  fix c1 c2
  assume "ydl_opts (snd (run argv1 fs1 x1 w1)) = Some c1 \<and>
          ydl_opts (snd (run argv2 fs2 x2 w2)) = Some c2"
  with run_ydl_opts_cases [of argv1 fs1 x1 w1] run_ydl_opts_cases [of argv2 fs2 x2 w2]
  show "c1 = c2" by simp
qed

theorem ydl_opts_independent_of_url_witness:
  "ydl_opts (snd (run [Positional ''https://youtu.be/a''] [] True True)) \<noteq> None
   \<and> ydl_opts (snd (run [Positional ''https://vimeo.com/1''] [(''downloads'', Dir [])] True False))
       \<noteq> None
   \<and> the (ydl_opts (snd (run [Positional ''https://youtu.be/a''] [] True True))) =
     the (ydl_opts (snd (run [Positional ''https://vimeo.com/1''] [(''downloads'', Dir [])] True False)))"
  using ydl_opts_independent_of_url
    [of _ _ _ _ _ "[Positional ''https://youtu.be/a'']" "[]" True True
        "[Positional ''https://vimeo.com/1'']" "[(''downloads'', Dir [])]" True False]
  by (simp add: run_one_url is_directory_def)

subsection \<open>C10\<close>

text \<open>
  C10. The assignment of \<^verbatim>\<open>ydl_opts\<close> leaves \<^verbatim>\<open>cli_defaults\<close> as it was; in every run
  that assembles the configuration, \<^verbatim>\<open>cli_defaults\<close> afterwards is exactly its four
  entries, and the configuration has each of the four with the same value.
\<close>

theorem cli_defaults_not_mutated:
  "cli_defaults (snd (stmt_ydl_opts s)) = cli_defaults s
   \<and> (\<forall>opts. ydl_opts (snd (run argv fs x w)) = Some opts \<longrightarrow>
        cli_defaults (snd (run argv fs x w)) =
          Some [(''fragment_retries'', PInt 10), (''ignoreerrors'', PStr ''only_download''),
                (''retries'', PInt 10), (''warn_when_outdated'', PBool True)]
        \<and> map_of opts ''fragment_retries'' = Some (PInt 10)
        \<and> map_of opts ''ignoreerrors'' = Some (PStr ''only_download'')
        \<and> map_of opts ''retries'' = Some (PInt 10)
        \<and> map_of opts ''warn_when_outdated'' = Some (PBool True))"
proof (intro conjI allI impI)
  show "cli_defaults (snd (stmt_ydl_opts s)) = cli_defaults s"
    by (simp add: stmt_ydl_opts_def split: option.splits sum.splits)
next
  fix opts
  assume a: "ydl_opts (snd (run argv fs x w)) = Some opts"
  with run_ydl_opts_cases [of argv fs x w]
  have opts: "opts = ydl_opts_display cli_defaults_value (PList [extract_audio]) ''downloads''"
    by simp
  show "map_of opts ''fragment_retries'' = Some (PInt 10)"
    by (simp add: opts ydl_opts_display_cli_defaults)
  show "map_of opts ''ignoreerrors'' = Some (PStr ''only_download'')"
    by (simp add: opts ydl_opts_display_cli_defaults)
  show "map_of opts ''retries'' = Some (PInt 10)"
    by (simp add: opts ydl_opts_display_cli_defaults)
  show "map_of opts ''warn_when_outdated'' = Some (PBool True)"
    by (simp add: opts ydl_opts_display_cli_defaults)
  show "cli_defaults (snd (run argv fs x w)) =
          Some [(''fragment_retries'', PInt 10), (''ignoreerrors'', PStr ''only_download''),
                (''retries'', PInt 10), (''warn_when_outdated'', PBool True)]"
  proof (cases "parse_args argv")
    case (Inl e)
    with a show ?thesis by (simp add: run_parse_error initial_def)
  next
    case (Inr u)
    show ?thesis
    proof (cases "x \<and> (is_directory fs ''downloads'' \<or> (map_of fs ''downloads'' = None \<and> w))")
      case True
      from run_dir_available [OF Inr True] show ?thesis by (simp add: cli_defaults_value_eq)
    next
      case False
      from run_dir_refused [OF Inr False] a show ?thesis by simp
    qed
  qed
qed

theorem cli_defaults_not_mutated_witness:
  "ydl_opts (snd (run [Positional ''https://youtu.be/c''] [] True True)) \<noteq> None
   \<and> cli_defaults (snd (run [Positional ''https://youtu.be/c''] [] True True)) =
          Some [(''fragment_retries'', PInt 10), (''ignoreerrors'', PStr ''only_download''),
                (''retries'', PInt 10), (''warn_when_outdated'', PBool True)]
   \<and> map_of (the (ydl_opts (snd (run [Positional ''https://youtu.be/c''] [] True True))))
        ''warn_when_outdated'' = Some (PBool True)"
  using cli_defaults_not_mutated [of _ "[Positional ''https://youtu.be/c'']" "[]" True True]
  by (simp add: run_one_url_empty_dir)

end
